theory Spec2Isabelle
  imports Main "HOL-Library.Word"
begin

unbundle bit_operations_syntax

section \<open>Data model\<close>

text \<open>
  The decoders of \<^verbatim>\<open>ImpactDecoder.py\<close> (Python 2) turn a byte buffer into a chain of
  protocol objects. A Python 2 \<^verbatim>\<open>str\<close> is a sequence of bytes.
\<close>

type_synonym byte = "8 word"
type_synonym bytes = "byte list"

text \<open>The exceptions that the decoder code itself can raise.\<close>

datatype error =
    NameError
  | AttributeError
  | UnboundLocalError
  | ZeroDivisionError
  | ValueError

text \<open>
  \<^verbatim>\<open>ord(c)\<close> of a one-byte string, and \<^verbatim>\<open>chr(n)\<close>, which raises
  \<^verbatim>\<open>ValueError\<close> outside \<^verbatim>\<open>range(256)\<close>.
\<close>

definition ord :: "byte \<Rightarrow> nat" where
  "ord c = unat c"

definition chr :: "nat \<Rightarrow> error + byte" where
  "chr n = (if n < 256 then Inr (of_nat n) else Inl ValueError)"

section \<open>RC4 in \<^verbatim>\<open>Dot11WEPDecoder.decrypt_data\<close>\<close>

text \<open>
  \<^verbatim>\<open>s[i],s[j] = s[j],s[i]\<close>: the right-hand side is evaluated first, then both
  positions are assigned, \<^verbatim>\<open>s[i]\<close> before \<^verbatim>\<open>s[j]\<close>.
\<close>

definition SSWAP :: "nat list \<Rightarrow> nat \<Rightarrow> nat \<Rightarrow> nat list" where
  "SSWAP s i j = (s[i := s ! j])[j := s ! i]"

text \<open>
  One pass of the key set-up loop
  \<^verbatim>\<open>j = (j + s[i] + ord(key[i % len(key)])) & 0xff; s[i],s[j] = s[j],s[i]\<close>.
  All values are non-negative Python integers.
\<close>

definition ksa_step :: "bytes \<Rightarrow> nat \<times> nat list \<Rightarrow> nat \<Rightarrow> nat \<times> nat list" where
  "ksa_step key st i =
     (let j = fst st; s = snd st;
          j' = (j + s ! i + ord (key ! (i mod length key))) AND 0xff
      in (j', SSWAP s i j'))"

text \<open>
  \<^verbatim>\<open>j = 0; s = range(256); for i in range(256): ...\<close>. With an empty key
  \<^verbatim>\<open>i % len(key)\<close> raises \<^verbatim>\<open>ZeroDivisionError\<close> in the first pass.
\<close>

definition rc4_setup :: "bytes \<Rightarrow> error + nat list" where
  "rc4_setup key =
     (if length key = 0 then Inl ZeroDivisionError
      else Inr (snd (foldl (ksa_step key) (0, [0..<256]) [0..<256])))"

text \<open>
  The second loop, \<^verbatim>\<open>for c in data\<close>, with the running values of \<^verbatim>\<open>s\<close>,
  \<^verbatim>\<open>i\<close>, \<^verbatim>\<open>j\<close> and \<^verbatim>\<open>out\<close>:
  \<^verbatim>\<open>i = (i+1) & 0xff; j = (j+s[i]) & 0xff; s[i],s[j] = s[j],s[i];
  d = chr(ord(c) ^ s[(s[i] + s[j]) & 0xff]); out += d\<close>.
\<close>

fun rc4_apply :: "nat list \<Rightarrow> nat \<Rightarrow> nat \<Rightarrow> bytes \<Rightarrow> bytes \<Rightarrow> error + bytes" where
  "rc4_apply s i j out [] = Inr out"
| "rc4_apply s i j out (c # cs) =
     (let i' = (i + 1) AND 0xff;
          j' = (j + s ! i') AND 0xff;
          s' = SSWAP s i' j'
      in case chr (ord c XOR s' ! ((s' ! i' + s' ! j') AND 0xff)) of
           Inl e \<Rightarrow> Inl e
         | Inr d \<Rightarrow> rc4_apply s' i' j' (out @ [d]) cs)"

text \<open>
  \<^verbatim>\<open>decrypt_data(self, key_string)\<close> reads \<^verbatim>\<open>self.body_string\<close> and
  \<^verbatim>\<open>self.get_iv()\<close>; the object that provides them is a record here. The IV is a
  byte string, concatenated in front of the secret key.
\<close>

record wep_self =
  body_string :: bytes
  get_iv :: bytes

text \<open>
  The method also uses two names that it neither receives nor assigns, \<^verbatim>\<open>data\<close>
  (line 434, the bytes the second loop runs over) and \<^verbatim>\<open>Dot11WEPData\<close> (line 440,
  a constructor). Python looks such names up in the module's global scope when the line
  runs, and raises \<^verbatim>\<open>NameError\<close> if the name is not bound there. The scope is an
  argument of the model; the module \<^verbatim>\<open>ImpactDecoder.py\<close> binds neither name (it
  binds \<^verbatim>\<open>ImpactPacket\<close>, \<^verbatim>\<open>dot11\<close> and its own classes), which is the value
  \<open>module_scope\<close>.
\<close>

record global_scope =
  data :: "bytes option"
  Dot11WEPData_bound :: bool

definition module_scope :: global_scope where
  "module_scope = \<lparr>data = None, Dot11WEPData_bound = False\<rparr>"

definition decrypt_data :: "global_scope \<Rightarrow> wep_self \<Rightarrow> bytes \<Rightarrow> error + bytes" where
  "decrypt_data g self key_string =
     (if length (body_string self) < 8 then Inr (body_string self)
      else
        let key = get_iv self @ key_string in
        case rc4_setup key of
          Inl e \<Rightarrow> Inl e
        | Inr s \<Rightarrow>
            (case data g of
               None \<Rightarrow> Inl NameError
             | Some input \<Rightarrow>
                 (case rc4_apply s 0 0 [] input of
                    Inl e \<Rightarrow> Inl e
                  | Inr out \<Rightarrow>
                      if \<not> Dot11WEPData_bound g then Inl NameError
                      else if False then Inr out
                      else Inr (body_string self))))"

section \<open>Protocol objects\<close>

text \<open>
  The classes of the header libraries \<^verbatim>\<open>ImpactPacket\<close> and \<^verbatim>\<open>dot11\<close> that the
  decoders below build. \<^verbatim>\<open>get_protocol\<close> compares \<^verbatim>\<open>protocol.__class__\<close> with
  the class it is asked for, so the class is part of the object.
\<close>

datatype protocol =
    Ethernet | LinuxSLL | IP | ARP | UDP | TCP | ICMP | Data
  | Dot11DataFrame | Dot11DataAddr4Frame | Dot11DataQoSFrame | Dot11DataAddr4QoSFrame
  | Dot11WEP | Dot11WEPData | Dot11WPA | Dot11WPAData | Dot11WPA2 | Dot11WPA2Data
  | LLC | SNAP

text \<open>
  A protocol object: its class, the buffer its constructor was given, and the object
  linked below it by \<^verbatim>\<open>contains\<close> (\<^verbatim>\<open>child()\<close> is \<^verbatim>\<open>None\<close> until then).
\<close>

datatype node = Node (node_class: protocol) (node_buffer: bytes) (child: "node option")

definition contains :: "node \<Rightarrow> node \<Rightarrow> node" where
  "contains p packet = Node (node_class p) (node_buffer p) (Some packet)"

text \<open>
  The common tail of the decoders: \<^verbatim>\<open>x = Class(aBuffer)\<close>, then the next decoder
  gives \<^verbatim>\<open>packet\<close> or raises, then \<^verbatim>\<open>x.contains(packet); return x\<close>.
\<close>

definition attach :: "protocol \<Rightarrow> bytes \<Rightarrow> error + node \<Rightarrow> error + node" where
  "attach cls aBuffer r =
     (case r of
        Inl e \<Rightarrow> Inl e
      | Inr packet \<Rightarrow> Inr (contains (Node cls aBuffer None) packet))"

text \<open>
  \<^verbatim>\<open>aBuffer[off:end]\<close> and \<^verbatim>\<open>aBuffer[off:]\<close> for non-negative \<^verbatim>\<open>off\<close> and
  \<^verbatim>\<open>end\<close>: the bytes at the positions from \<^verbatim>\<open>off\<close> up to, not including,
  \<^verbatim>\<open>end\<close>, as far as the buffer has them. Slicing never raises.
\<close>

definition py_slice :: "nat \<Rightarrow> nat \<Rightarrow> bytes \<Rightarrow> bytes" where
  "py_slice off end' aBuffer = drop off (take end' aBuffer)"

section \<open>The header libraries\<close>

text \<open>
  The modules \<^verbatim>\<open>ImpactPacket\<close> and \<^verbatim>\<open>dot11\<close> are imported by the decoders and are
  not part of the source under study. Their constants and the accessors the decoders call
  are parameters of the model: each accessor is a function of the buffer the object was
  built from.
\<close>

record ImpactPacket_lib =
  IP_ethertype :: nat
  ARP_ethertype :: nat
  UDP_protocol :: nat
  TCP_protocol :: nat
  ICMP_protocol :: nat
  ICMP_UNREACH :: nat
  Ethernet_get_header_size :: "bytes \<Rightarrow> nat"
  Ethernet_get_ether_type :: "bytes \<Rightarrow> nat"
  LinuxSLL_get_ether_type :: "bytes \<Rightarrow> nat"
  IP_get_header_size :: "bytes \<Rightarrow> nat"
  IP_get_ip_len :: "bytes \<Rightarrow> nat"
  IP_get_ip_p :: "bytes \<Rightarrow> nat"
  ARP_get_header_size :: "bytes \<Rightarrow> nat"
  UDP_get_header_size :: "bytes \<Rightarrow> nat"
  TCP_get_header_size :: "bytes \<Rightarrow> nat"
  ICMP_get_header_size :: "bytes \<Rightarrow> nat"
  ICMP_get_icmp_type :: "bytes \<Rightarrow> nat"

record dot11_lib =
  SAPTypes_SNAP :: nat
  DLC_UNNUMBERED_FRAMES :: nat
  Dot11Data_body_string :: "protocol \<Rightarrow> bytes \<Rightarrow> bytes"
  Dot11WEP_is_WEP :: "bytes \<Rightarrow> bool"
  Dot11WEP_body_string :: "bytes \<Rightarrow> bytes"
  Dot11WEP_decrypt_data :: "bytes \<Rightarrow> bytes"
  Dot11WEPData_body_string :: "bytes \<Rightarrow> bytes"
  Dot11WPA_is_WPA :: "bytes \<Rightarrow> bool"
  Dot11WPA_body_string :: "bytes \<Rightarrow> bytes"
  Dot11WPA_get_decrypted_data :: "bytes \<Rightarrow> bytes"
  Dot11WPA2_is_WPA2 :: "bytes \<Rightarrow> bool"
  Dot11WPA2_body_string :: "bytes \<Rightarrow> bytes"
  Dot11WPA2_get_decrypted_data :: "bytes \<Rightarrow> bytes"
  LLC_get_DSAP :: "bytes \<Rightarrow> nat"
  LLC_get_SSAP :: "bytes \<Rightarrow> nat"
  LLC_get_control :: "bytes \<Rightarrow> nat"
  LLC_body_string :: "bytes \<Rightarrow> bytes"
  SNAP_get_OUI :: "bytes \<Rightarrow> nat"
  SNAP_get_protoID :: "bytes \<Rightarrow> nat"
  SNAP_body_string :: "bytes \<Rightarrow> bytes"

section \<open>Link, network and transport decoders\<close>

definition DataDecoder_decode :: "bytes \<Rightarrow> error + node" where
  "DataDecoder_decode aBuffer = Inr (Node Data aBuffer None)"

definition UDPDecoder_decode :: "ImpactPacket_lib \<Rightarrow> bytes \<Rightarrow> error + node" where
  "UDPDecoder_decode ip aBuffer =
     (let off = UDP_get_header_size ip aBuffer
      in attach UDP aBuffer (DataDecoder_decode (drop off aBuffer)))"

definition TCPDecoder_decode :: "ImpactPacket_lib \<Rightarrow> bytes \<Rightarrow> error + node" where
  "TCPDecoder_decode ip aBuffer =
     (let off = TCP_get_header_size ip aBuffer
      in attach TCP aBuffer (DataDecoder_decode (drop off aBuffer)))"

definition ARPDecoder_decode :: "ImpactPacket_lib \<Rightarrow> bytes \<Rightarrow> error + node" where
  "ARPDecoder_decode ip aBuffer =
     (let off = ARP_get_header_size ip aBuffer
      in attach ARP aBuffer (DataDecoder_decode (drop off aBuffer)))"

text \<open>
  \<^verbatim>\<open>IPDecoderForICMP\<close>, "added to parse the IP header of ICMP unreachables packets":
  UDP or data, and the slice \<^verbatim>\<open>aBuffer[off:]\<close> has no end.
\<close>

definition IPDecoderForICMP_decode :: "ImpactPacket_lib \<Rightarrow> bytes \<Rightarrow> error + node" where
  "IPDecoderForICMP_decode ip aBuffer =
     (let off = IP_get_header_size ip aBuffer
      in attach IP aBuffer
           (if IP_get_ip_p ip aBuffer = UDP_protocol ip
            then UDPDecoder_decode ip (drop off aBuffer)
            else DataDecoder_decode (drop off aBuffer)))"

definition ICMPDecoder_decode :: "ImpactPacket_lib \<Rightarrow> bytes \<Rightarrow> error + node" where
  "ICMPDecoder_decode ip aBuffer =
     (let off = ICMP_get_header_size ip aBuffer
      in attach ICMP aBuffer
           (if ICMP_get_icmp_type ip aBuffer = ICMP_UNREACH ip
            then IPDecoderForICMP_decode ip (drop off aBuffer)
            else DataDecoder_decode (drop off aBuffer)))"

definition IPDecoder_decode :: "ImpactPacket_lib \<Rightarrow> bytes \<Rightarrow> error + node" where
  "IPDecoder_decode ip aBuffer =
     (let off = IP_get_header_size ip aBuffer;
          end' = IP_get_ip_len ip aBuffer
      in attach IP aBuffer
           (if IP_get_ip_p ip aBuffer = UDP_protocol ip
            then UDPDecoder_decode ip (py_slice off end' aBuffer)
            else if IP_get_ip_p ip aBuffer = TCP_protocol ip
            then TCPDecoder_decode ip (py_slice off end' aBuffer)
            else if IP_get_ip_p ip aBuffer = ICMP_protocol ip
            then ICMPDecoder_decode ip (py_slice off end' aBuffer)
            else DataDecoder_decode (py_slice off end' aBuffer)))"

definition EthDecoder_decode :: "ImpactPacket_lib \<Rightarrow> bytes \<Rightarrow> error + node" where
  "EthDecoder_decode ip aBuffer =
     (let off = Ethernet_get_header_size ip aBuffer
      in attach Ethernet aBuffer
           (if Ethernet_get_ether_type ip aBuffer = IP_ethertype ip
            then IPDecoder_decode ip (drop off aBuffer)
            else if Ethernet_get_ether_type ip aBuffer = ARP_ethertype ip
            then ARPDecoder_decode ip (drop off aBuffer)
            else DataDecoder_decode (drop off aBuffer)))"

definition LinuxSLLDecoder_decode :: "ImpactPacket_lib \<Rightarrow> bytes \<Rightarrow> error + node" where
  "LinuxSLLDecoder_decode ip aBuffer =
     (let off = 16
      in attach LinuxSLL aBuffer
           (if LinuxSLL_get_ether_type ip aBuffer = IP_ethertype ip
            then IPDecoder_decode ip (drop off aBuffer)
            else if LinuxSLL_get_ether_type ip aBuffer = ARP_ethertype ip
            then ARPDecoder_decode ip (drop off aBuffer)
            else DataDecoder_decode (drop off aBuffer)))"

section \<open>LLC and SNAP\<close>

definition SNAPDecoder_decode :: "ImpactPacket_lib \<Rightarrow> dot11_lib \<Rightarrow> bytes \<Rightarrow> error + node" where
  "SNAPDecoder_decode ip d11 aBuffer =
     attach SNAP aBuffer
       (if SNAP_get_OUI d11 aBuffer \<noteq> 0x000000
        then DataDecoder_decode (SNAP_body_string d11 aBuffer)
        else if SNAP_get_protoID d11 aBuffer = IP_ethertype ip
        then IPDecoder_decode ip (SNAP_body_string d11 aBuffer)
        else if SNAP_get_protoID d11 aBuffer = ARP_ethertype ip
        then ARPDecoder_decode ip (SNAP_body_string d11 aBuffer)
        else DataDecoder_decode (SNAP_body_string d11 aBuffer))"

text \<open>
  In \<^verbatim>\<open>LLCDecoder.decode\<close> the \<^verbatim>\<open>else\<close> belongs to the outermost \<^verbatim>\<open>if\<close>, the
  test of the DSAP; the two inner tests have no \<^verbatim>\<open>else\<close>. Where an inner test fails
  the local name \<^verbatim>\<open>packet\<close> is never assigned (\<open>None\<close> below), and
  \<^verbatim>\<open>d.contains(packet)\<close> raises \<^verbatim>\<open>UnboundLocalError\<close>.
\<close>

definition LLCDecoder_decode :: "ImpactPacket_lib \<Rightarrow> dot11_lib \<Rightarrow> bytes \<Rightarrow> error + node" where
  "LLCDecoder_decode ip d11 aBuffer =
     (let packet =
            (if LLC_get_DSAP d11 aBuffer = SAPTypes_SNAP d11
             then (if LLC_get_SSAP d11 aBuffer = SAPTypes_SNAP d11
                   then (if LLC_get_control d11 aBuffer = DLC_UNNUMBERED_FRAMES d11
                         then Some (SNAPDecoder_decode ip d11 (LLC_body_string d11 aBuffer))
                         else None)
                   else None)
             else Some (DataDecoder_decode (LLC_body_string d11 aBuffer)))
      in case packet of
           None \<Rightarrow> Inl UnboundLocalError
         | Some r \<Rightarrow> attach LLC aBuffer r)"

section \<open>Confidentiality decoders\<close>

text \<open>
  \<^verbatim>\<open>decode(self, aBuffer, key=None)\<close>: the key is \<^verbatim>\<open>None\<close> or a string, and
  \<^verbatim>\<open>if key:\<close> holds for a non-empty string.
\<close>

definition truthy :: "bytes option \<Rightarrow> bool" where
  "truthy key = (case key of None \<Rightarrow> False | Some k \<Rightarrow> k \<noteq> [])"

definition Dot11WEPDataDecoder_decode :: "ImpactPacket_lib \<Rightarrow> dot11_lib \<Rightarrow> bytes \<Rightarrow> error + node" where
  "Dot11WEPDataDecoder_decode ip d11 aBuffer =
     attach Dot11WEPData aBuffer (LLCDecoder_decode ip d11 (Dot11WEPData_body_string d11 aBuffer))"

text \<open>
  \<^verbatim>\<open>Dot11WPADataDecoder.decode\<close> and \<^verbatim>\<open>Dot11WPA2DataDecoder.decode\<close> assign
  the local \<^verbatim>\<open>llc_decoder\<close> and then call \<^verbatim>\<open>self.llc_decoder.decode\<close>, an attribute
  nothing sets: \<^verbatim>\<open>AttributeError\<close>.
\<close>

definition Dot11WPADataDecoder_decode :: "bytes \<Rightarrow> error + node" where
  "Dot11WPADataDecoder_decode aBuffer = Inl AttributeError"

definition Dot11WPA2DataDecoder_decode :: "bytes \<Rightarrow> error + node" where
  "Dot11WPA2DataDecoder_decode aBuffer = Inl AttributeError"

text \<open>
  The three scheme decoders return \<^verbatim>\<open>None\<close> (here \<open>Inr None\<close>) or the scheme's
  object. The body of \<^verbatim>\<open>Dot11WEPDecoder.decode\<close> is the lines 393 to 397: the lines
  399 to 410 (\<^verbatim>\<open>if key: ... else: ... wep.contains(packet); return wep\<close>) start at the
  column of the \<^verbatim>\<open>def\<close>, so they are not part of the method. After the signature
  test the method has no further statement and returns \<^verbatim>\<open>None\<close> in both cases.
  (Python also refuses a \<^verbatim>\<open>return\<close> outside a function when it compiles the module;
  the model gives each method the statements its \<^verbatim>\<open>def\<close> encloses.)
\<close>

definition Dot11WEPDecoder_decode ::
  "ImpactPacket_lib \<Rightarrow> dot11_lib \<Rightarrow> bytes \<Rightarrow> bytes option \<Rightarrow> error + node option" where
  "Dot11WEPDecoder_decode ip d11 aBuffer key =
     (if Dot11WEP_is_WEP d11 aBuffer = False then Inr None
      else Inr None)"

text \<open>
  With a key, \<^verbatim>\<open>Dot11WPADecoder.decode\<close> calls \<^verbatim>\<open>Dot11DataWPADataDecoder()\<close>, a
  name the module does not define (the class is \<^verbatim>\<open>Dot11WPADataDecoder\<close>):
  \<^verbatim>\<open>NameError\<close>.
\<close>

definition Dot11WPADecoder_decode :: "dot11_lib \<Rightarrow> bytes \<Rightarrow> bytes option \<Rightarrow> error + node option" where
  "Dot11WPADecoder_decode d11 aBuffer key =
     (if Dot11WPA_is_WPA d11 aBuffer = False then Inr None
      else map_sum id Some
        (attach Dot11WPA aBuffer
           (if truthy key
            then Inl NameError
            else DataDecoder_decode (Dot11WPA_body_string d11 aBuffer))))"

definition Dot11WPA2Decoder_decode :: "dot11_lib \<Rightarrow> bytes \<Rightarrow> bytes option \<Rightarrow> error + node option" where
  "Dot11WPA2Decoder_decode d11 aBuffer key =
     (if Dot11WPA2_is_WPA2 d11 aBuffer = False then Inr None
      else map_sum id Some
        (attach Dot11WPA2 aBuffer
           (if truthy key
            then Dot11WPA2DataDecoder_decode (Dot11WPA2_get_decrypted_data d11 aBuffer)
            else DataDecoder_decode (Dot11WPA2_body_string d11 aBuffer))))"

section \<open>The data frame decoder\<close>

record Dot11DataDecoder =
  QoS :: bool
  Addr4 :: bool
  Private :: bool

text \<open>\<^verbatim>\<open>__init__\<close> and the three setters.\<close>

definition Dot11DataDecoder_init :: Dot11DataDecoder where
  "Dot11DataDecoder_init = \<lparr>QoS = False, Addr4 = False, Private = False\<rparr>"

definition set_QoS :: "Dot11DataDecoder \<Rightarrow> Dot11DataDecoder" where
  "set_QoS self = self\<lparr>QoS := True\<rparr>"

definition set_Addr4 :: "Dot11DataDecoder \<Rightarrow> Dot11DataDecoder" where
  "set_Addr4 self = self\<lparr>Addr4 := True\<rparr>"

definition set_privateFrame :: "Dot11DataDecoder \<Rightarrow> Dot11DataDecoder" where
  "set_privateFrame self = self\<lparr>Private := True\<rparr>"

text \<open>The class of the frame object \<^verbatim>\<open>p\<close>, lines 358 to 366.\<close>

definition frame_class :: "Dot11DataDecoder \<Rightarrow> protocol" where
  "frame_class self =
     (if Addr4 self then (if QoS self then Dot11DataAddr4QoSFrame else Dot11DataAddr4Frame)
      else if QoS self then Dot11DataQoSFrame
      else Dot11DataFrame)"

text \<open>
  Lines 369 to 383: the value of \<^verbatim>\<open>packet\<close>. The three scheme decoders are called
  with the body only, so their \<^verbatim>\<open>key\<close> is the default \<^verbatim>\<open>None\<close>.
\<close>

definition Dot11DataDecoder_packet ::
  "ImpactPacket_lib \<Rightarrow> dot11_lib \<Rightarrow> Dot11DataDecoder \<Rightarrow> bytes \<Rightarrow> error + node" where
  "Dot11DataDecoder_packet ip d11 self body =
     (if Private self = False then LLCDecoder_decode ip d11 body
      else
        case Dot11WEPDecoder_decode ip d11 body None of
          Inl e \<Rightarrow> Inl e
        | Inr (Some packet) \<Rightarrow> Inr packet
        | Inr None \<Rightarrow>
            (case Dot11WPADecoder_decode d11 body None of
               Inl e \<Rightarrow> Inl e
             | Inr (Some packet) \<Rightarrow> Inr packet
             | Inr None \<Rightarrow>
                 (case Dot11WPA2Decoder_decode d11 body None of
                    Inl e \<Rightarrow> Inl e
                  | Inr (Some packet) \<Rightarrow> Inr packet
                  | Inr None \<Rightarrow> DataDecoder_decode body)))"

definition Dot11DataDecoder_decode ::
  "ImpactPacket_lib \<Rightarrow> dot11_lib \<Rightarrow> Dot11DataDecoder \<Rightarrow> bytes \<Rightarrow> error + node" where
  "Dot11DataDecoder_decode ip d11 self aBuffer =
     attach (frame_class self) aBuffer
       (Dot11DataDecoder_packet ip d11 self
          (Dot11Data_body_string d11 (frame_class self) aBuffer))"

section \<open>Looking a protocol up in a decoded chain\<close>

text \<open>
  \<^verbatim>\<open>Decoder.__decoded_protocol\<close> is \<^verbatim>\<open>None\<close> until \<^verbatim>\<open>set_decoded_protocol\<close>
  stores the object a decoder has just built. The stored object is the one \<^verbatim>\<open>decode\<close>
  returns, so once \<^verbatim>\<open>decode\<close> has returned it carries the chain linked below it.
\<close>

record Decoder =
  decoded_protocol :: "node option"

definition Decoder_init :: Decoder where
  "Decoder_init = \<lparr>decoded_protocol = None\<rparr>"

definition set_decoded_protocol :: "Decoder \<Rightarrow> node \<Rightarrow> Decoder" where
  "set_decoded_protocol self p = self\<lparr>decoded_protocol := Some p\<rparr>"

text \<open>
  The loop \<^verbatim>\<open>while protocol: if protocol.__class__ == aprotocol: break;
  protocol = protocol.child()\<close>, where a protocol object counts as true and \<^verbatim>\<open>None\<close>
  as false, and the value of \<^verbatim>\<open>protocol\<close> when it ends.
\<close>

fun get_protocol_loop :: "node option \<Rightarrow> protocol \<Rightarrow> node option" where
  "get_protocol_loop None aprotocol = None"
| "get_protocol_loop (Some (Node cls buf c)) aprotocol =
     (if cls = aprotocol then Some (Node cls buf c) else get_protocol_loop c aprotocol)"

definition get_protocol :: "Decoder \<Rightarrow> protocol \<Rightarrow> node option" where
  "get_protocol self aprotocol = get_protocol_loop (decoded_protocol self) aprotocol"

text \<open>
  The decoder object after \<^verbatim>\<open>EthDecoder().decode(aBuffer)\<close>: line 52 stores the
  Ethernet object, and the chain is linked below that same object before the call returns.
  If a lower decoder raises, the stored object has no child.
\<close>

definition EthDecoder_after_decode :: "ImpactPacket_lib \<Rightarrow> bytes \<Rightarrow> Decoder" where
  "EthDecoder_after_decode ip aBuffer =
     set_decoded_protocol Decoder_init
       (case EthDecoder_decode ip aBuffer of
          Inr e \<Rightarrow> e
        | Inl err \<Rightarrow> Node Ethernet aBuffer None)"

text \<open>The objects of a chain, from a root along the \<^verbatim>\<open>child()\<close> links.\<close>

fun chain :: "node option \<Rightarrow> node list" where
  "chain None = []"
| "chain (Some (Node cls buf c)) = Node cls buf c # chain c"

section \<open>The RC4 table\<close>

text \<open>
  The table \<^verbatim>\<open>s\<close> always has 256 entries, each below 256, so every index
  \<^verbatim>\<open>s[...]\<close> of the two loops is in range and \<^verbatim>\<open>chr\<close> never raises.
\<close>

definition rc4_state :: "nat list \<Rightarrow> bool" where
  "rc4_state s \<longleftrightarrow> length s = 256 \<and> list_all (\<lambda>x. x < 256) s"

section \<open>A header library for worked examples\<close>

text \<open>
  To run the decoders on concrete packets, the accessors are given the usual wire
  layouts (Ethernet, IPv4, UDP, TCP, ICMP, 802.2 LLC and SNAP, and the WEP, TKIP and
  CCMP headers of 802.11). A position past the end of the buffer reads as 0. These
  values only instantiate the parameters in the examples; no general statement below
  depends on them.
\<close>

definition byte_at :: "bytes \<Rightarrow> nat \<Rightarrow> nat" where
  "byte_at b i = (if i < length b then unat (b ! i) else 0)"

definition word_at :: "bytes \<Rightarrow> nat \<Rightarrow> nat" where
  "word_at b i = 256 * byte_at b i + byte_at b (i + 1)"

definition wire_ImpactPacket :: ImpactPacket_lib where
  "wire_ImpactPacket =
     \<lparr>IP_ethertype = 0x800, ARP_ethertype = 0x806,
      UDP_protocol = 17, TCP_protocol = 6, ICMP_protocol = 1, ICMP_UNREACH = 3,
      Ethernet_get_header_size = (\<lambda>b. 14),
      Ethernet_get_ether_type = (\<lambda>b. word_at b 12),
      LinuxSLL_get_ether_type = (\<lambda>b. word_at b 14),
      IP_get_header_size = (\<lambda>b. 4 * (byte_at b 0 mod 16)),
      IP_get_ip_len = (\<lambda>b. word_at b 2),
      IP_get_ip_p = (\<lambda>b. byte_at b 9),
      ARP_get_header_size = (\<lambda>b. 8),
      UDP_get_header_size = (\<lambda>b. 8),
      TCP_get_header_size = (\<lambda>b. 4 * (byte_at b 12 div 16)),
      ICMP_get_header_size = (\<lambda>b. 8),
      ICMP_get_icmp_type = (\<lambda>b. byte_at b 0)\<rparr>"

definition wire_dot11 :: dot11_lib where
  "wire_dot11 =
     \<lparr>SAPTypes_SNAP = 0xAA, DLC_UNNUMBERED_FRAMES = 0x03,
      Dot11Data_body_string = (\<lambda>cls b. drop 24 b),
      Dot11WEP_is_WEP = (\<lambda>b. byte_at b 3 AND 0x20 = 0),
      Dot11WEP_body_string = (\<lambda>b. drop 4 b),
      Dot11WEP_decrypt_data = (\<lambda>b. drop 4 b),
      Dot11WEPData_body_string = (\<lambda>b. b),
      Dot11WPA_is_WPA = (\<lambda>b. byte_at b 3 AND 0x20 \<noteq> 0 \<and> byte_at b 1 = (byte_at b 0 OR 0x20) AND 0x7f),
      Dot11WPA_body_string = (\<lambda>b. drop 8 b),
      Dot11WPA_get_decrypted_data = (\<lambda>b. drop 8 b),
      Dot11WPA2_is_WPA2 = (\<lambda>b. byte_at b 3 AND 0x20 \<noteq> 0 \<and> byte_at b 2 = 0),
      Dot11WPA2_body_string = (\<lambda>b. drop 8 b),
      Dot11WPA2_get_decrypted_data = (\<lambda>b. drop 8 b),
      LLC_get_DSAP = (\<lambda>b. byte_at b 0),
      LLC_get_SSAP = (\<lambda>b. byte_at b 1),
      LLC_get_control = (\<lambda>b. byte_at b 2),
      LLC_body_string = (\<lambda>b. drop 3 b),
      SNAP_get_OUI = (\<lambda>b. 65536 * byte_at b 0 + word_at b 1),
      SNAP_get_protoID = (\<lambda>b. word_at b 3),
      SNAP_body_string = (\<lambda>b. drop 5 b)\<rparr>"

text \<open>Packets for the examples.\<close>

definition ip_tcp_padded :: bytes where
  "ip_tcp_padded =
     [0x45, 0, 0, 44, 0, 0, 0, 0, 64, 6, 0, 0, 10, 0, 0, 1, 10, 0, 0, 2,
      0, 80, 0, 81, 0, 0, 0, 0, 0, 0, 0, 0, 0x50, 0, 0, 0, 0, 0, 0, 0,
      0x68, 0x69, 0x21, 0x21,
      0xee, 0xff]"

definition icmp_unreach_udp :: bytes where
  "icmp_unreach_udp =
     [3, 3, 0, 0, 0, 0, 0, 0,
      0x45, 0, 0, 60, 0, 0, 0, 0, 64, 17, 0, 0, 10, 0, 0, 1, 10, 0, 0, 2,
      0x30, 0x39, 0, 53, 0, 40, 0, 0]"

definition icmp_unreach_tcp :: bytes where
  "icmp_unreach_tcp =
     [3, 1, 0, 0, 0, 0, 0, 0,
      0x45, 0, 0, 60, 0, 0, 0, 0, 64, 6, 0, 0, 10, 0, 0, 1, 10, 0, 0, 2,
      0x30, 0x39, 0, 80, 0, 0, 0, 1]"

definition llc_snap_dsap_only :: bytes where
  "llc_snap_dsap_only = [0xAA, 0x42, 0x03, 1, 2, 3, 4]"

definition tkip_body :: bytes where
  "tkip_body = [0x01, 0x21, 0x02, 0x20, 0, 0, 0, 0, 0xde, 0xad, 0xbe, 0xef]"

definition data_frame :: "bytes \<Rightarrow> bytes" where
  "data_frame body = replicate 24 0 @ body"

definition wep_body :: bytes where
  "wep_body = [0x0a, 0x0b, 0x0c, 0x00, 0x11, 0x22, 0x33, 0x44]"

definition ccmp_body :: bytes where
  "ccmp_body = [0x01, 0x00, 0x00, 0x20, 0, 0, 0, 0, 0xca, 0xfe]"

definition unknown_body :: bytes where
  "unknown_body = [0x01, 0x00, 0x55, 0x20, 0, 0, 0, 0, 0x99]"

definition eth_ip_tcp :: bytes where
  "eth_ip_tcp =
     [0, 1, 2, 3, 4, 5, 6, 7, 8, 9, 10, 11, 0x08, 0x00,
      0x45, 0, 0, 44, 0, 0, 0, 0, 64, 6, 0, 0, 10, 0, 0, 1, 10, 0, 0, 2,
      0, 80, 0, 81, 0, 0, 0, 0, 0, 0, 0, 0, 0x50, 0, 0, 0, 0, 0, 0, 0,
      0x68, 0x69, 0x21, 0x21]"

section \<open>Properties of the RC4 loops\<close>

text \<open>On non-negative integers \<^verbatim>\<open>& 0xff\<close> is the remainder modulo 256.\<close>

lemma and_ff: "(n::nat) AND 0xff = n mod 256"
  using take_bit_eq_mask [of 8 n] by (simp add: take_bit_eq_mod mask_eq_exp_minus_1)

lemma and_ff_less: "(n::nat) AND 0xff < 256"
  by (simp add: and_ff)

lemma xor_less_256:
  assumes "(a::nat) < 256" and "b < 256"
  shows "a XOR b < 256"
proof -
  from assms have "take_bit 8 a = a" and "take_bit 8 b = b"
    by (simp_all add: take_bit_nat_eq_self_iff)
  then have "a XOR b = take_bit 8 (a XOR b)"
    by (simp add: take_bit_xor)
  moreover have "take_bit 8 (a XOR b) < 2 ^ 8"
    by (rule take_bit_nat_less_exp)
  ultimately show ?thesis by simp
qed

lemma rc4_state_SSWAP: "rc4_state s \<Longrightarrow> i < 256 \<Longrightarrow> j < 256 \<Longrightarrow> rc4_state (SSWAP s i j)"
  unfolding rc4_state_def SSWAP_def list_all_iff
  by (auto dest!: set_update_subset_insert [THEN subsetD])

lemma rc4_state_nth: "rc4_state s \<Longrightarrow> k < 256 \<Longrightarrow> s ! k < 256"
  by (simp add: rc4_state_def list_all_length)

lemma rc4_state_init: "rc4_state [0..<256]"
  by (simp add: rc4_state_def list_all_iff)

lemma rc4_state_ksa_step:
  "rc4_state (snd st) \<Longrightarrow> i < 256 \<Longrightarrow> rc4_state (snd (ksa_step key st i))"
  by (simp add: ksa_step_def Let_def rc4_state_SSWAP and_ff_less)

lemma rc4_state_foldl:
  "rc4_state (snd st) \<Longrightarrow> list_all (\<lambda>i. i < 256) ns \<Longrightarrow>
   rc4_state (snd (foldl (ksa_step key) st ns))"
  by (induction ns arbitrary: st) (simp_all add: rc4_state_ksa_step)

lemma rc4_setup_state:
  "key \<noteq> [] \<Longrightarrow> \<exists>s. rc4_setup key = Inr s \<and> rc4_state s"
  by (simp add: rc4_setup_def rc4_state_foldl rc4_state_init list_all_iff)

lemma ord_less: "ord c < 256"
  unfolding ord_def using unsigned_less [of c] by simp

lemma chr_ord_xor: "k < 256 \<Longrightarrow> chr (ord c XOR k) = Inr (of_nat (ord c XOR k))"
  by (simp add: chr_def xor_less_256 ord_less)

lemma ord_of_nat: "n < 256 \<Longrightarrow> ord (of_nat n) = n"
  by (simp add: ord_def unat_of_nat)

lemma xor_twice: "k < 256 \<Longrightarrow> of_nat (ord (of_nat (ord c XOR k)) XOR k) = c"
  by (simp add: ord_of_nat xor_less_256 ord_less xor.assoc) (simp add: ord_def)

text \<open>
  The keystream of the second loop depends on \<^verbatim>\<open>s\<close>, \<^verbatim>\<open>i\<close>, \<^verbatim>\<open>j\<close> and
  the number of bytes only: given bytes to run over, the loop applied to its own output,
  from the same start, gives the input back.
\<close>

lemma rc4_apply_twice:
  "rc4_state s \<Longrightarrow>
   \<exists>ct. length ct = length input
      \<and> rc4_apply s i j out input = Inr (out @ ct)
      \<and> (\<forall>out'. rc4_apply s i j out' ct = Inr (out' @ input))"
proof (induction input arbitrary: s i j out)
  case Nil
  then show ?case by simp
next
  case (Cons c cs)
  define i' where "i' = (i + 1) AND 0xff"
  define j' where "j' = (j + s ! i') AND 0xff"
  define s' where "s' = SSWAP s i' j'"
  define k where "k = s' ! ((s' ! i' + s' ! j') AND 0xff)"
  define d where "d = (of_nat (ord c XOR k) :: byte)"
  have st: "rc4_state s'"
    unfolding s'_def i'_def j'_def using Cons.prems by (simp add: rc4_state_SSWAP and_ff_less)
  have k: "k < 256"
    unfolding k_def using st by (simp add: rc4_state_nth and_ff_less)
  have enc: "chr (ord c XOR k) = Inr d"
    unfolding d_def using k by (rule chr_ord_xor)
  have dec: "chr (ord d XOR k) = Inr c"
    unfolding d_def using k by (simp add: chr_ord_xor xor_twice)
  from Cons.IH [OF st, of i' j' "out @ [d]"] obtain ct where
    ct: "length ct = length cs"
        "rc4_apply s' i' j' (out @ [d]) cs = Inr ((out @ [d]) @ ct)"
        "\<forall>out'. rc4_apply s' i' j' out' ct = Inr (out' @ cs)"
    by blast
  have step: "\<And>acc x xs. rc4_apply s i j acc (x # xs) =
      (case chr (ord x XOR k) of Inl e \<Rightarrow> Inl e | Inr y \<Rightarrow> rc4_apply s' i' j' (acc @ [y]) xs)"
    unfolding i'_def j'_def s'_def k_def by (simp add: Let_def cong: sum.case_cong)
  have "length (d # ct) = length (c # cs)"
    using ct(1) by simp
  moreover have "rc4_apply s i j out (c # cs) = Inr (out @ d # ct)"
    unfolding step enc using ct(2) by simp
  moreover have "\<forall>out'. rc4_apply s i j out' (d # ct) = Inr (out' @ c # cs)"
    unfolding step dec using ct(3) by simp
  ultimately show ?case by blast
qed

section \<open>Bodies of 8 bytes or more\<close>

text \<open>
  In the module neither \<^verbatim>\<open>data\<close> nor \<^verbatim>\<open>Dot11WEPData\<close> is bound, so for a body
  of 8 bytes or more the method raises \<^verbatim>\<open>NameError\<close> at line 434, once the key
  set-up is done and before a byte of keystream is applied.
\<close>

lemma decrypt_data_module_scope:
  assumes "8 \<le> length (body_string self)" and "get_iv self @ key_string \<noteq> []"
  shows "decrypt_data module_scope self key_string = Inl NameError"
proof -
  from rc4_setup_state [OF assms(2)] obtain s where "rc4_setup (get_iv self @ key_string) = Inr s"
    by blast
  with assms(1) show ?thesis
    by (simp add: decrypt_data_def module_scope_def)
qed

text \<open>
  No path of the method returns the decrypted string: the test
  \<^verbatim>\<open>if False: # is ICV correct\<close> never selects it, so a value the method returns is
  \<^verbatim>\<open>self.body_string\<close>.
\<close>

lemma decrypt_data_Inr_body:
  "decrypt_data g self key_string = Inr r \<Longrightarrow> r = body_string self"
  by (auto simp: decrypt_data_def Let_def split: sum.splits option.splits if_splits)

text \<open>
  C4. For an 8-byte body, the IV \<^verbatim>\<open>0a 0b 0c\<close> and the key \<^verbatim>\<open>0d\<close>, the method
  does not return the body: it raises \<^verbatim>\<open>NameError\<close>, because the keystream loop
  reads the unbound name \<^verbatim>\<open>data\<close>. The lines that would drop the decrypted string and
  return the body (442 to 445) are not reached.
\<close>

theorem decrypt_data_raises_instead_of_body:
  "decrypt_data module_scope
       \<lparr>body_string = [1, 2, 3, 4, 5, 6, 7, 8], get_iv = [10, 11, 12]\<rparr> [13]
     = Inl NameError
   \<and> decrypt_data module_scope
       \<lparr>body_string = [1, 2, 3, 4, 5, 6, 7, 8], get_iv = [10, 11, 12]\<rparr> [13]
     \<noteq> Inr [1, 2, 3, 4, 5, 6, 7, 8]"
  using decrypt_data_module_scope
    [of "\<lparr>body_string = [1, 2, 3, 4, 5, 6, 7, 8], get_iv = [10, 11, 12]\<rparr>" "[13]"]
  by simp

text \<open>
  C5. For the IV \<^verbatim>\<open>01 02 03\<close>, the key \<^verbatim>\<open>Key\<close> and the 9 bytes
  \<^verbatim>\<open>Plaintext\<close>, the key set-up over \<^verbatim>\<open>IV + key_string\<close> (line 421) completes
  with a table of 256 entries, and the method then raises \<^verbatim>\<open>NameError\<close>: the name
  \<^verbatim>\<open>data\<close> is unbound, so no keystream byte is applied to any input and there is no
  output to apply it to again.
\<close>

theorem decrypt_data_applies_no_keystream:
  "(\<exists>s. rc4_setup
           (get_iv \<lparr>body_string = [80, 108, 97, 105, 110, 116, 101, 120, 116],
                    get_iv = [1, 2, 3]\<rparr> @ [75, 101, 121]) = Inr s
        \<and> rc4_state s)
   \<and> data module_scope = None
   \<and> decrypt_data module_scope
        \<lparr>body_string = [80, 108, 97, 105, 110, 116, 101, 120, 116], get_iv = [1, 2, 3]\<rparr>
        [75, 101, 121]
      = Inl NameError"
proof -
  let ?self = "\<lparr>body_string = [80, 108, 97, 105, 110, 116, 101, 120, 116 :: byte],
                 get_iv = [1, 2, 3 :: byte]\<rparr>"
  have key: "get_iv ?self @ [75, 101, 121] \<noteq> []"
    by simp
  have len: "8 \<le> length (body_string ?self)"
    by simp
  from rc4_setup_state [OF key] decrypt_data_module_scope [OF len key]
  show ?thesis
    by (simp add: module_scope_def)
qed

section \<open>Short WEP bodies\<close>

text \<open>
  C9. A body of fewer than 8 bytes is returned unchanged by \<^verbatim>\<open>decrypt_data\<close>, whatever
  the key, the IV and the global scope are: the check comes before the key set-up and the
  keystream loop, so neither runs (an empty effective key or an unbound name, which make
  the later lines raise, have no effect here).
\<close>

theorem decrypt_data_short_body:
  "length (body_string self) < 8 \<Longrightarrow> decrypt_data g self key_string = Inr (body_string self)"
  by (simp add: decrypt_data_def)

theorem decrypt_data_short_body_witness:
  "length (body_string \<lparr>body_string = [1, 2, 3], get_iv = []\<rparr>) < 8
   \<and> decrypt_data module_scope \<lparr>body_string = [1, 2, 3], get_iv = []\<rparr> [] = Inr [1, 2, 3]"
  using decrypt_data_short_body [of "\<lparr>body_string = [1, 2, 3], get_iv = []\<rparr>" module_scope "[]"]
  by simp

section \<open>Results of the decoders that cannot raise\<close>

lemma wire_ImpactPacket_simps:
  "IP_ethertype wire_ImpactPacket = 0x800"
  "ARP_ethertype wire_ImpactPacket = 0x806"
  "UDP_protocol wire_ImpactPacket = 17"
  "TCP_protocol wire_ImpactPacket = 6"
  "ICMP_protocol wire_ImpactPacket = 1"
  "ICMP_UNREACH wire_ImpactPacket = 3"
  "Ethernet_get_header_size wire_ImpactPacket b = 14"
  "Ethernet_get_ether_type wire_ImpactPacket b = word_at b 12"
  "LinuxSLL_get_ether_type wire_ImpactPacket b = word_at b 14"
  "IP_get_header_size wire_ImpactPacket b = 4 * (byte_at b 0 mod 16)"
  "IP_get_ip_len wire_ImpactPacket b = word_at b 2"
  "IP_get_ip_p wire_ImpactPacket b = byte_at b 9"
  "ARP_get_header_size wire_ImpactPacket b = 8"
  "UDP_get_header_size wire_ImpactPacket b = 8"
  "TCP_get_header_size wire_ImpactPacket b = 4 * (byte_at b 12 div 16)"
  "ICMP_get_header_size wire_ImpactPacket b = 8"
  "ICMP_get_icmp_type wire_ImpactPacket b = byte_at b 0"
  by (simp_all add: wire_ImpactPacket_def)

lemma wire_dot11_simps:
  "SAPTypes_SNAP wire_dot11 = 0xAA"
  "DLC_UNNUMBERED_FRAMES wire_dot11 = 0x03"
  "Dot11Data_body_string wire_dot11 cls b = drop 24 b"
  "Dot11WEP_is_WEP wire_dot11 b \<longleftrightarrow> byte_at b 3 AND 0x20 = 0"
  "Dot11WEP_body_string wire_dot11 b = drop 4 b"
  "Dot11WEP_decrypt_data wire_dot11 b = drop 4 b"
  "Dot11WEPData_body_string wire_dot11 b = b"
  "Dot11WPA_is_WPA wire_dot11 b \<longleftrightarrow>
     byte_at b 3 AND 0x20 \<noteq> 0 \<and> byte_at b 1 = (byte_at b 0 OR 0x20) AND 0x7f"
  "Dot11WPA_body_string wire_dot11 b = drop 8 b"
  "Dot11WPA_get_decrypted_data wire_dot11 b = drop 8 b"
  "Dot11WPA2_is_WPA2 wire_dot11 b \<longleftrightarrow> byte_at b 3 AND 0x20 \<noteq> 0 \<and> byte_at b 2 = 0"
  "Dot11WPA2_body_string wire_dot11 b = drop 8 b"
  "Dot11WPA2_get_decrypted_data wire_dot11 b = drop 8 b"
  "LLC_get_DSAP wire_dot11 b = byte_at b 0"
  "LLC_get_SSAP wire_dot11 b = byte_at b 1"
  "LLC_get_control wire_dot11 b = byte_at b 2"
  "LLC_body_string wire_dot11 b = drop 3 b"
  "SNAP_get_OUI wire_dot11 b = 65536 * byte_at b 0 + word_at b 1"
  "SNAP_get_protoID wire_dot11 b = word_at b 3"
  "SNAP_body_string wire_dot11 b = drop 5 b"
  by (simp_all add: wire_dot11_def)

lemmas wire_defs = wire_ImpactPacket_simps wire_dot11_simps byte_at_def word_at_def

lemma attach_Inr: "attach cls aBuffer (Inr packet) = Inr (Node cls aBuffer (Some packet))"
  by (simp add: attach_def contains_def)

lemma attach_Inl: "attach cls aBuffer (Inl e) = Inl e"
  by (simp add: attach_def)

lemma UDPDecoder_decode_eq:
  "UDPDecoder_decode ip aBuffer =
     Inr (Node UDP aBuffer (Some (Node Data (drop (UDP_get_header_size ip aBuffer) aBuffer) None)))"
  by (simp add: UDPDecoder_decode_def DataDecoder_decode_def attach_Inr)

lemma TCPDecoder_decode_eq:
  "TCPDecoder_decode ip aBuffer =
     Inr (Node TCP aBuffer (Some (Node Data (drop (TCP_get_header_size ip aBuffer) aBuffer) None)))"
  by (simp add: TCPDecoder_decode_def DataDecoder_decode_def attach_Inr)

lemma IPDecoderForICMP_decode_eq:
  "IPDecoderForICMP_decode ip aBuffer =
     Inr (Node IP aBuffer (Some
       (if IP_get_ip_p ip aBuffer = UDP_protocol ip
        then Node UDP (drop (IP_get_header_size ip aBuffer) aBuffer)
               (Some (Node Data (drop (UDP_get_header_size ip (drop (IP_get_header_size ip aBuffer) aBuffer))
                                   (drop (IP_get_header_size ip aBuffer) aBuffer)) None))
        else Node Data (drop (IP_get_header_size ip aBuffer) aBuffer) None)))"
  by (simp add: IPDecoderForICMP_decode_def Let_def UDPDecoder_decode_eq DataDecoder_decode_def attach_Inr)

lemma ICMPDecoder_decode_Inr:
  "\<exists>packet. ICMPDecoder_decode ip aBuffer = Inr (Node ICMP aBuffer (Some packet))"
  by (simp add: ICMPDecoder_decode_def Let_def IPDecoderForICMP_decode_eq DataDecoder_decode_def attach_Inr)

lemma IPDecoder_decode_Inr:
  "\<exists>packet. IPDecoder_decode ip aBuffer = Inr (Node IP aBuffer (Some packet))
     \<and> node_buffer packet = py_slice (IP_get_header_size ip aBuffer) (IP_get_ip_len ip aBuffer) aBuffer"
proof -
  let ?view = "py_slice (IP_get_header_size ip aBuffer) (IP_get_ip_len ip aBuffer) aBuffer"
  obtain c where c: "ICMPDecoder_decode ip ?view = Inr (Node ICMP ?view (Some c))"
    using ICMPDecoder_decode_Inr by blast
  show ?thesis
    by (cases "IP_get_ip_p ip aBuffer = UDP_protocol ip";
        cases "IP_get_ip_p ip aBuffer = TCP_protocol ip";
        cases "IP_get_ip_p ip aBuffer = ICMP_protocol ip")
       (simp_all add: IPDecoder_decode_def Let_def UDPDecoder_decode_eq TCPDecoder_decode_eq c
          DataDecoder_decode_def attach_Inr)
qed

section \<open>The IP decoder bounds what its child sees\<close>

text \<open>
  C2. \<^verbatim>\<open>IPDecoder.decode\<close> always returns the IP object with a child, and the buffer
  the child was built from is \<^verbatim>\<open>aBuffer[off:end]\<close>: the bytes after the IP header,
  cut to \<^verbatim>\<open>get_ip_len() - get_header_size()\<close> bytes. Every byte of it is a byte of
  \<^verbatim>\<open>aBuffer\<close> at a position below the declared total length, so bytes of the buffer
  at or beyond that length are not in it.
\<close>

theorem IPDecoder_child_slice:
  "\<exists>packet. IPDecoder_decode ip aBuffer = Inr (Node IP aBuffer (Some packet))
     \<and> node_buffer packet =
         take (IP_get_ip_len ip aBuffer - IP_get_header_size ip aBuffer)
           (drop (IP_get_header_size ip aBuffer) aBuffer)
     \<and> length (node_buffer packet) \<le> IP_get_ip_len ip aBuffer - IP_get_header_size ip aBuffer
     \<and> (\<forall>k < length (node_buffer packet).
           IP_get_header_size ip aBuffer + k < IP_get_ip_len ip aBuffer
         \<and> IP_get_header_size ip aBuffer + k < length aBuffer
         \<and> node_buffer packet ! k = aBuffer ! (IP_get_header_size ip aBuffer + k))"
proof -
  define off where "off = IP_get_header_size ip aBuffer"
  define end' where "end' = IP_get_ip_len ip aBuffer"
  define view where "view = py_slice off end' aBuffer"
  have view: "view = take (end' - off) (drop off aBuffer)"
    by (simp add: view_def py_slice_def drop_take)
  have len: "length view \<le> end' - off"
    by (simp add: view)
  have nth: "\<forall>k < length view. off + k < end' \<and> off + k < length aBuffer \<and> view ! k = aBuffer ! (off + k)"
    by (auto simp: view)
  obtain packet where "IPDecoder_decode ip aBuffer = Inr (Node IP aBuffer (Some packet))"
    and "node_buffer packet = view"
    using IPDecoder_decode_Inr [of ip aBuffer] unfolding view_def off_def end'_def by blast
  with view len nth show ?thesis
    unfolding off_def end'_def by auto
qed

theorem IPDecoder_child_slice_witness:
  "\<exists>packet. IPDecoder_decode wire_ImpactPacket ip_tcp_padded
               = Inr (Node IP ip_tcp_padded (Some packet))
     \<and> node_buffer packet =
         [0, 80, 0, 81, 0, 0, 0, 0, 0, 0, 0, 0, 0x50, 0, 0, 0, 0, 0, 0, 0, 0x68, 0x69, 0x21, 0x21]
     \<and> length ip_tcp_padded = 46"
proof -
  have off: "IP_get_header_size wire_ImpactPacket ip_tcp_padded = 20"
    by (simp add: wire_defs ip_tcp_padded_def)
  have len: "IP_get_ip_len wire_ImpactPacket ip_tcp_padded = 44"
    by (simp add: wire_defs ip_tcp_padded_def)
  from IPDecoder_child_slice [of wire_ImpactPacket ip_tcp_padded] obtain packet where
    "IPDecoder_decode wire_ImpactPacket ip_tcp_padded = Inr (Node IP ip_tcp_padded (Some packet))"
    and "node_buffer packet = take (44 - 20) (drop 20 ip_tcp_padded)"
    unfolding off len by blast
  moreover have "take (44 - 20) (drop 20 ip_tcp_padded) =
      [0, 80, 0, 81, 0, 0, 0, 0, 0, 0, 0, 0, 0x50, 0, 0, 0, 0, 0, 0, 0, 0x68, 0x69, 0x21, 0x21]"
    by (simp add: ip_tcp_padded_def)
  moreover have "length ip_tcp_padded = 46"
    by (simp add: ip_tcp_padded_def)
  ultimately show ?thesis by auto
qed


section \<open>ICMP unreachable messages\<close>

text \<open>
  C7. When the ICMP type is \<^verbatim>\<open>ICMP_UNREACH\<close>, \<^verbatim>\<open>ICMPDecoder.decode\<close> hands the
  bytes after the ICMP header to \<^verbatim>\<open>IPDecoderForICMP\<close>, and returns without raising:
  the ICMP object holds an IP object whose child is a UDP object (holding the data after
  the UDP header) when the embedded protocol number is UDP's, and a data object for every
  other protocol number. The embedded buffer is not cut to the IP total length, and no
  TCP or ICMP decoder is tried.
\<close>

theorem ICMPDecoder_unreach_lenient:
  assumes "ICMP_get_icmp_type ip aBuffer = ICMP_UNREACH ip"
  shows "ICMPDecoder_decode ip aBuffer =
           attach ICMP aBuffer
             (IPDecoderForICMP_decode ip (drop (ICMP_get_header_size ip aBuffer) aBuffer))
       \<and> (\<exists>body rest.
             body = drop (ICMP_get_header_size ip aBuffer) aBuffer
           \<and> rest = drop (IP_get_header_size ip body) body
           \<and> ICMPDecoder_decode ip aBuffer =
               Inr (Node ICMP aBuffer (Some (Node IP body (Some
                 (if IP_get_ip_p ip body = UDP_protocol ip
                  then Node UDP rest (Some (Node Data (drop (UDP_get_header_size ip rest) rest) None))
                  else Node Data rest None))))))"
  using assms
  by (simp add: ICMPDecoder_decode_def Let_def IPDecoderForICMP_decode_eq attach_Inr)

theorem ICMPDecoder_unreach_lenient_witness:
  "ICMP_get_icmp_type wire_ImpactPacket icmp_unreach_udp = ICMP_UNREACH wire_ImpactPacket
   \<and> length (drop 8 icmp_unreach_udp) = 28
   \<and> ICMPDecoder_decode wire_ImpactPacket icmp_unreach_udp =
       Inr (Node ICMP icmp_unreach_udp (Some (Node IP (drop 8 icmp_unreach_udp) (Some
         (Node UDP [0x30, 0x39, 0, 53, 0, 40, 0, 0] (Some (Node Data [] None)))))))
   \<and> ICMP_get_icmp_type wire_ImpactPacket icmp_unreach_tcp = ICMP_UNREACH wire_ImpactPacket
   \<and> ICMPDecoder_decode wire_ImpactPacket icmp_unreach_tcp =
       Inr (Node ICMP icmp_unreach_tcp (Some (Node IP (drop 8 icmp_unreach_tcp) (Some
         (Node Data [0x30, 0x39, 0, 80, 0, 0, 0, 1] None)))))"
proof -
  have u: "ICMP_get_icmp_type wire_ImpactPacket icmp_unreach_udp = ICMP_UNREACH wire_ImpactPacket"
    by (simp add: wire_defs icmp_unreach_udp_def)
  have t: "ICMP_get_icmp_type wire_ImpactPacket icmp_unreach_tcp = ICMP_UNREACH wire_ImpactPacket"
    by (simp add: wire_defs icmp_unreach_tcp_def)
  have "ICMPDecoder_decode wire_ImpactPacket icmp_unreach_udp =
       Inr (Node ICMP icmp_unreach_udp (Some (Node IP (drop 8 icmp_unreach_udp) (Some
         (Node UDP [0x30, 0x39, 0, 53, 0, 40, 0, 0] (Some (Node Data [] None)))))))"
    using ICMPDecoder_unreach_lenient [OF u, THEN conjunct2]
    by (simp add: wire_defs icmp_unreach_udp_def)
  moreover have "ICMPDecoder_decode wire_ImpactPacket icmp_unreach_tcp =
       Inr (Node ICMP icmp_unreach_tcp (Some (Node IP (drop 8 icmp_unreach_tcp) (Some
         (Node Data [0x30, 0x39, 0, 80, 0, 0, 0, 1] None)))))"
    using ICMPDecoder_unreach_lenient [OF t, THEN conjunct2]
    by (simp add: wire_defs icmp_unreach_tcp_def)
  moreover have "length (drop 8 icmp_unreach_udp) = 28"
    by (simp add: icmp_unreach_udp_def)
  ultimately show ?thesis using u t by blast
qed

section \<open>The LLC decoder\<close>

lemma DataDecoder_decode_eq: "DataDecoder_decode aBuffer = Inr (Node Data aBuffer None)"
  by (simp add: DataDecoder_decode_def)

lemma LLCDecoder_decode_not_SNAP:
  assumes "LLC_get_DSAP d11 aBuffer \<noteq> SAPTypes_SNAP d11"
  shows "LLCDecoder_decode ip d11 aBuffer =
           Inr (Node LLC aBuffer (Some (Node Data (LLC_body_string d11 aBuffer) None)))"
  using assms by (simp add: LLCDecoder_decode_def DataDecoder_decode_eq attach_Inr)

lemma LLCDecoder_decode_SNAP:
  assumes "LLC_get_DSAP d11 aBuffer = SAPTypes_SNAP d11"
      and "LLC_get_SSAP d11 aBuffer = SAPTypes_SNAP d11"
      and "LLC_get_control d11 aBuffer = DLC_UNNUMBERED_FRAMES d11"
  shows "LLCDecoder_decode ip d11 aBuffer =
           attach LLC aBuffer (SNAPDecoder_decode ip d11 (LLC_body_string d11 aBuffer))"
  using assms by (simp add: LLCDecoder_decode_def)

lemma LLCDecoder_decode_unbound:
  assumes "LLC_get_DSAP d11 aBuffer = SAPTypes_SNAP d11"
      and "LLC_get_SSAP d11 aBuffer \<noteq> SAPTypes_SNAP d11
           \<or> LLC_get_control d11 aBuffer \<noteq> DLC_UNNUMBERED_FRAMES d11"
  shows "LLCDecoder_decode ip d11 aBuffer = Inl UnboundLocalError"
  using assms by (auto simp: LLCDecoder_decode_def)

text \<open>
  C3. The child of the LLC object is a SNAP object when DSAP, SSAP and control all have
  the SNAP values (\<open>LLCDecoder_decode_SNAP\<close>), and a data object holding the LLC body
  when the DSAP differs (\<open>LLCDecoder_decode_not_SNAP\<close>). For a DSAP equal to the SNAP
  value with another SSAP or control value no child is built: the decoder raises
  \<^verbatim>\<open>UnboundLocalError\<close> (\<open>LLCDecoder_decode_unbound\<close>), here on the LLC header
  \<^verbatim>\<open>AA 42 03\<close>.
\<close>

theorem LLCDecoder_decode_raises:
  "LLC_get_DSAP wire_dot11 llc_snap_dsap_only = SAPTypes_SNAP wire_dot11
   \<and> LLC_get_SSAP wire_dot11 llc_snap_dsap_only \<noteq> SAPTypes_SNAP wire_dot11
   \<and> LLCDecoder_decode wire_ImpactPacket wire_dot11 llc_snap_dsap_only = Inl UnboundLocalError"
proof -
  have d: "LLC_get_DSAP wire_dot11 llc_snap_dsap_only = SAPTypes_SNAP wire_dot11"
    by (simp add: wire_defs llc_snap_dsap_only_def)
  have s: "LLC_get_SSAP wire_dot11 llc_snap_dsap_only \<noteq> SAPTypes_SNAP wire_dot11"
    by (simp add: wire_defs llc_snap_dsap_only_def)
  from d s show ?thesis
    by (simp add: LLCDecoder_decode_unbound)
qed

section \<open>The scheme decoders\<close>

lemma truthy_None: "\<not> truthy None"
  by (simp add: truthy_def)

lemma Dot11WEPDecoder_decode_None:
  "Dot11WEPDecoder_decode ip d11 aBuffer key = Inr None"
  by (simp add: Dot11WEPDecoder_decode_def)

lemma Dot11WPADecoder_decode_no_key:
  "Dot11WPADecoder_decode d11 aBuffer None =
     (if Dot11WPA_is_WPA d11 aBuffer
      then Inr (Some (Node Dot11WPA aBuffer (Some (Node Data (Dot11WPA_body_string d11 aBuffer) None))))
      else Inr None)"
  by (simp add: Dot11WPADecoder_decode_def truthy_None DataDecoder_decode_eq attach_Inr)

lemma Dot11WPA2Decoder_decode_no_key:
  "Dot11WPA2Decoder_decode d11 aBuffer None =
     (if Dot11WPA2_is_WPA2 d11 aBuffer
      then Inr (Some (Node Dot11WPA2 aBuffer (Some (Node Data (Dot11WPA2_body_string d11 aBuffer) None))))
      else Inr None)"
  by (simp add: Dot11WPA2Decoder_decode_def truthy_None DataDecoder_decode_eq attach_Inr)

lemma scheme_decoders_None_iff:
  "Dot11WPADecoder_decode d11 aBuffer key = Inr None \<longleftrightarrow> \<not> Dot11WPA_is_WPA d11 aBuffer"
  "Dot11WPA2Decoder_decode d11 aBuffer key = Inr None \<longleftrightarrow> \<not> Dot11WPA2_is_WPA2 d11 aBuffer"
  by (auto simp: Dot11WPADecoder_decode_def Dot11WPA2Decoder_decode_def
      attach_def map_sum_def split: sum.splits)

lemma Dot11WPADecoder_decode_key:
  assumes "Dot11WPA_is_WPA d11 aBuffer" and "truthy key"
  shows "Dot11WPADecoder_decode d11 aBuffer key = Inl NameError"
  using assms by (simp add: Dot11WPADecoder_decode_def attach_Inl)

lemma Dot11WPA2Decoder_decode_key:
  assumes "Dot11WPA2_is_WPA2 d11 aBuffer" and "truthy key"
  shows "Dot11WPA2Decoder_decode d11 aBuffer key = Inl AttributeError"
  using assms by (simp add: Dot11WPA2Decoder_decode_def Dot11WPA2DataDecoder_decode_def attach_Inl)

text \<open>
  C6. The WPA and the WPA2 decoder return \<^verbatim>\<open>None\<close> exactly when their signature
  check fails, for every key (\<open>scheme_decoders_None_iff\<close>), and without a key they return
  the scheme's object when the check succeeds. With a key and a matching signature
  \<^verbatim>\<open>Dot11WPADecoder.decode\<close> returns nothing: it raises \<^verbatim>\<open>NameError\<close>, here on
  a TKIP header; \<^verbatim>\<open>Dot11WPA2Decoder.decode\<close> raises \<^verbatim>\<open>AttributeError\<close> in the
  same situation (\<open>Dot11WPA2Decoder_decode_key\<close>). The WEP decoder returns \<^verbatim>\<open>None\<close>
  also when its signature check succeeds (\<open>Dot11WEPDecoder_decode_None\<close>).
\<close>

theorem Dot11WPADecoder_decode_key_raises:
  "Dot11WPA_is_WPA wire_dot11 tkip_body
   \<and> Dot11WPADecoder_decode wire_dot11 tkip_body (Some [0x6b]) = Inl NameError
   \<and> Dot11WPADecoder_decode wire_dot11 tkip_body None =
       Inr (Some (Node Dot11WPA tkip_body (Some (Node Data [0xde, 0xad, 0xbe, 0xef] None))))"
proof -
  have w: "Dot11WPA_is_WPA wire_dot11 tkip_body"
    by (simp add: wire_defs tkip_body_def)
  have k: "truthy (Some [0x6b])"
    by (simp add: truthy_def)
  have b: "Dot11WPA_body_string wire_dot11 tkip_body = [0xde, 0xad, 0xbe, 0xef]"
    by (simp add: wire_defs tkip_body_def)
  from w k b show ?thesis
    by (simp add: Dot11WPADecoder_decode_key Dot11WPADecoder_decode_no_key)
qed

section \<open>The confidentiality chain of a protected data frame\<close>


lemma data_frame_body: "Dot11Data_body_string wire_dot11 cls (data_frame body) = body"
  by (simp add: wire_dot11_simps data_frame_def)

lemma Private_set: "Private (set_privateFrame Dot11DataDecoder_init)"
  by (simp add: set_privateFrame_def Dot11DataDecoder_init_def)

lemma frame_class_init: "frame_class (set_privateFrame Dot11DataDecoder_init) = Dot11DataFrame"
  by (simp add: frame_class_def set_privateFrame_def Dot11DataDecoder_init_def)

lemma example_signatures:
  "Dot11WEP_is_WEP wire_dot11 wep_body"
  "\<not> Dot11WPA_is_WPA wire_dot11 wep_body" "\<not> Dot11WPA2_is_WPA2 wire_dot11 wep_body"
  "\<not> Dot11WEP_is_WEP wire_dot11 tkip_body" "Dot11WPA_is_WPA wire_dot11 tkip_body"
  "\<not> Dot11WEP_is_WEP wire_dot11 ccmp_body" "\<not> Dot11WPA_is_WPA wire_dot11 ccmp_body"
  "Dot11WPA2_is_WPA2 wire_dot11 ccmp_body"
  "\<not> Dot11WEP_is_WEP wire_dot11 unknown_body" "\<not> Dot11WPA_is_WPA wire_dot11 unknown_body"
  "\<not> Dot11WPA2_is_WPA2 wire_dot11 unknown_body"
  by (simp_all add: wire_defs wep_body_def tkip_body_def ccmp_body_def unknown_body_def)

lemma example_bodies:
  "Dot11WPA_body_string wire_dot11 tkip_body = [0xde, 0xad, 0xbe, 0xef]"
  "Dot11WPA2_body_string wire_dot11 ccmp_body = [0xca, 0xfe]"
  by (simp_all add: wire_defs tkip_body_def ccmp_body_def)


text \<open>
  C10. The chain passes no key, so no decryption accessor of the header library is used:
  the child of a matched WPA or WPA2 object is a data object built from the scheme
  object's \<^verbatim>\<open>body_string\<close>, the payload as received, and the result stays the same
  whatever the decryption accessors would return. A WEP object is never the child,
  since the WEP decoder returns \<^verbatim>\<open>None\<close> for every body: a frame that only the WEP
  signature matches gets a data object built from the frame's body.
\<close>

theorem protected_frame_child_is_opaque:
  assumes "Private self"
      and "body = Dot11Data_body_string d11 (frame_class self) aBuffer"
  shows "Dot11DataDecoder_decode ip d11 self aBuffer =
           Inr (Node (frame_class self) aBuffer (Some
             (if Dot11WPA_is_WPA d11 body
              then Node Dot11WPA body (Some (Node Data (Dot11WPA_body_string d11 body) None))
              else if Dot11WPA2_is_WPA2 d11 body
              then Node Dot11WPA2 body (Some (Node Data (Dot11WPA2_body_string d11 body) None))
              else Node Data body None)))
       \<and> Dot11DataDecoder_decode ip
           (d11\<lparr>Dot11WEP_decrypt_data := f, Dot11WPA_get_decrypted_data := g,
                Dot11WPA2_get_decrypted_data := h\<rparr>) self aBuffer
         = Dot11DataDecoder_decode ip d11 self aBuffer"
  using assms
  by (simp add: Dot11DataDecoder_decode_def Dot11DataDecoder_packet_def attach_Inr
      DataDecoder_decode_eq Dot11WEPDecoder_decode_None Dot11WPADecoder_decode_no_key
      Dot11WPA2Decoder_decode_no_key)

theorem protected_frame_child_is_opaque_witness:
  "Private (set_privateFrame Dot11DataDecoder_init)
   \<and> Dot11DataDecoder_decode wire_ImpactPacket wire_dot11
        (set_privateFrame Dot11DataDecoder_init) (data_frame tkip_body)
      = Inr (Node Dot11DataFrame (data_frame tkip_body)
          (Some (Node Dot11WPA tkip_body (Some (Node Data [0xde, 0xad, 0xbe, 0xef] None)))))
   \<and> Dot11DataDecoder_decode wire_ImpactPacket wire_dot11
        (set_privateFrame Dot11DataDecoder_init) (data_frame ccmp_body)
      = Inr (Node Dot11DataFrame (data_frame ccmp_body)
          (Some (Node Dot11WPA2 ccmp_body (Some (Node Data [0xca, 0xfe] None)))))
   \<and> Dot11DataDecoder_decode wire_ImpactPacket wire_dot11
        (set_privateFrame Dot11DataDecoder_init) (data_frame wep_body)
      = Inr (Node Dot11DataFrame (data_frame wep_body) (Some (Node Data wep_body None)))"
proof -
  let ?self = "set_privateFrame Dot11DataDecoder_init"
  note child = protected_frame_child_is_opaque
    [OF Private_set, where ip = wire_ImpactPacket and ?d11.0 = wire_dot11, THEN conjunct1]
  have "Dot11DataDecoder_decode wire_ImpactPacket wire_dot11 ?self (data_frame tkip_body)
      = Inr (Node Dot11DataFrame (data_frame tkip_body)
          (Some (Node Dot11WPA tkip_body (Some (Node Data [0xde, 0xad, 0xbe, 0xef] None)))))"
    using child [of tkip_body "data_frame tkip_body"]
    by (simp add: data_frame_body frame_class_init example_signatures example_bodies)
  moreover have "Dot11DataDecoder_decode wire_ImpactPacket wire_dot11 ?self (data_frame ccmp_body)
      = Inr (Node Dot11DataFrame (data_frame ccmp_body)
          (Some (Node Dot11WPA2 ccmp_body (Some (Node Data [0xca, 0xfe] None)))))"
    using child [of ccmp_body "data_frame ccmp_body"]
    by (simp add: data_frame_body frame_class_init example_signatures example_bodies)
  moreover have "Dot11DataDecoder_decode wire_ImpactPacket wire_dot11 ?self (data_frame wep_body)
      = Inr (Node Dot11DataFrame (data_frame wep_body) (Some (Node Data wep_body None)))"
    using child [of wep_body "data_frame wep_body"]
    by (simp add: data_frame_body frame_class_init example_signatures)
  ultimately show ?thesis
    using Private_set by blast
qed

section \<open>Looking up a protocol\<close>

lemma get_protocol_loop_find:
  "get_protocol_loop root aprotocol = List.find (\<lambda>p. node_class p = aprotocol) (chain root)"
  by (induction root aprotocol rule: get_protocol_loop.induct) simp_all

text \<open>
  C8. \<^verbatim>\<open>get_protocol\<close> returns the first object of the requested class on the chain
  that starts at the stored object and follows \<^verbatim>\<open>child()\<close>, and \<^verbatim>\<open>None\<close> when
  the chain has no object of that class. On the chain Ethernet, IP, TCP, data it gives
  the TCP object for \<^verbatim>\<open>TCP\<close> and \<^verbatim>\<open>None\<close> for \<^verbatim>\<open>ARP\<close>.
\<close>

theorem get_protocol_first_of_class:
  "get_protocol self aprotocol =
     List.find (\<lambda>p. node_class p = aprotocol) (chain (decoded_protocol self))
   \<and> (get_protocol self aprotocol = None \<longleftrightarrow>
        (\<forall>p \<in> set (chain (decoded_protocol self)). node_class p \<noteq> aprotocol))
   \<and> (\<forall>p. get_protocol self aprotocol = Some p \<longrightarrow>
        (\<exists>i < length (chain (decoded_protocol self)).
            chain (decoded_protocol self) ! i = p \<and> node_class p = aprotocol
          \<and> (\<forall>j < i. node_class (chain (decoded_protocol self) ! j) \<noteq> aprotocol)))"
proof -
  have eq: "get_protocol self aprotocol =
      List.find (\<lambda>p. node_class p = aprotocol) (chain (decoded_protocol self))"
    by (simp add: get_protocol_def get_protocol_loop_find)
  then show ?thesis
    by (auto simp: find_None_iff find_Some_iff)
qed

lemma EthDecoder_decode_eth_ip_tcp:
  "EthDecoder_decode wire_ImpactPacket eth_ip_tcp =
     Inr (Node Ethernet eth_ip_tcp (Some
       (Node IP (drop 14 eth_ip_tcp) (Some
         (Node TCP (drop 34 eth_ip_tcp) (Some
           (Node Data [0x68, 0x69, 0x21, 0x21] None)))))))"
  by (simp add: EthDecoder_decode_def IPDecoder_decode_def Let_def TCPDecoder_decode_eq attach_Inr
      py_slice_def wire_defs eth_ip_tcp_def)

theorem get_protocol_first_of_class_witness:
  "get_protocol (EthDecoder_after_decode wire_ImpactPacket eth_ip_tcp) TCP =
     Some (Node TCP (drop 34 eth_ip_tcp) (Some (Node Data [0x68, 0x69, 0x21, 0x21] None)))
   \<and> get_protocol (EthDecoder_after_decode wire_ImpactPacket eth_ip_tcp) ARP = None
   \<and> get_protocol Decoder_init TCP = None"
proof -
  let ?d = "EthDecoder_after_decode wire_ImpactPacket eth_ip_tcp"
  have root: "decoded_protocol ?d =
     Some (Node Ethernet eth_ip_tcp (Some
       (Node IP (drop 14 eth_ip_tcp) (Some
         (Node TCP (drop 34 eth_ip_tcp) (Some
           (Node Data [0x68, 0x69, 0x21, 0x21] None)))))))"
    by (simp add: EthDecoder_after_decode_def EthDecoder_decode_eth_ip_tcp
        set_decoded_protocol_def Decoder_init_def)
  have "get_protocol ?d TCP =
     Some (Node TCP (drop 34 eth_ip_tcp) (Some (Node Data [0x68, 0x69, 0x21, 0x21] None)))"
    using get_protocol_first_of_class [of ?d TCP, THEN conjunct1] by (simp add: root)
  moreover have "get_protocol ?d ARP = None"
    using get_protocol_first_of_class [of ?d ARP, THEN conjunct1] by (simp add: root)
  moreover have "get_protocol Decoder_init TCP = None"
    using get_protocol_first_of_class [of Decoder_init TCP, THEN conjunct1]
    by (simp add: Decoder_init_def)
  ultimately show ?thesis by blast
qed


end
